theory Spec2Isabelle
  imports Complex_Main "HOL-Library.Sublist"
begin

section \<open>Python strings\<close>

text \<open>
  A message, and every text that is matched, lowercased, trimmed or split, is a
  \<^typ>\<open>string\<close>: a list of 8-bit characters, read as the code points U+0000 to U+00FF.
  \<^verbatim>\<open>needle in haystack\<close> on such strings is \<^term>\<open>sublist needle haystack\<close> (a
  contiguous occurrence), \<^verbatim>\<open>x in xs\<close> on a list is \<^term>\<open>x \<in> set xs\<close>.

  A text that is only built and handed on (an advice, a reply, a prompt, a log line) is
  a \<open>ustring\<close>: the list of its code points, of any size. \<open>ustr\<close> reads a string as
  such a text.
\<close>

type_synonym ustring = "nat list"

definition ustr :: "string \<Rightarrow> ustring" where
  "ustr s = map of_char s"

definition str_join :: "ustring \<Rightarrow> ustring list \<Rightarrow> ustring" where
  \<comment> \<open>\<^verbatim>\<open>sep.join(xs)\<close>\<close>
  "str_join sep xs = (case xs of [] \<Rightarrow> [] | x # ys \<Rightarrow> foldl (\<lambda>acc y. acc @ sep @ y) x ys)"

definition is_upper :: "char \<Rightarrow> bool" where
  \<comment> \<open>the code points below 256 that \<^verbatim>\<open>str.lower\<close> changes: A-Z and the Latin-1 capitals
      U+00C0 to U+00DE without the multiplication sign U+00D7\<close>
  "is_upper c =
     (let n = (of_char c :: nat)
      in (65 \<le> n \<and> n \<le> 90) \<or> (192 \<le> n \<and> n \<le> 222 \<and> n \<noteq> 215))"

fun lower_char :: "char \<Rightarrow> char" where
  \<comment> \<open>the lowercase letter is 32 code points above its capital: bit 5 is set\<close>
  "lower_char (Char b0 b1 b2 b3 b4 b5 b6 b7) =
     (if is_upper (Char b0 b1 b2 b3 b4 b5 b6 b7) then Char b0 b1 b2 b3 b4 True b6 b7
      else Char b0 b1 b2 b3 b4 b5 b6 b7)"

definition str_lower :: "string \<Rightarrow> string" where
  "str_lower s = map lower_char s"

definition is_space :: "char \<Rightarrow> bool" where
  \<comment> \<open>\<^verbatim>\<open>str.isspace\<close> below 256: tab, LF, VT, FF, CR, FS, GS, RS, US, space, NEL, NBSP\<close>
  "is_space c = (of_char c \<in> {9, 10, 11, 12, 13, 28, 29, 30, 31, 32, 133, 160 :: nat})"

definition str_strip :: "string \<Rightarrow> string" where
  "str_strip s = rev (dropWhile is_space (rev (dropWhile is_space s)))"

fun split_from :: "string \<Rightarrow> string \<Rightarrow> string list" where
  \<comment> \<open>\<^verbatim>\<open>str.split()\<close> scanning left to right; the first argument is the token being
      read, reversed\<close>
  "split_from cur [] = (if cur = [] then [] else [rev cur])"
| "split_from cur (c # cs) =
     (if is_space c then (if cur = [] then split_from [] cs else rev cur # split_from [] cs)
      else split_from (c # cur) cs)"

definition str_split :: "string \<Rightarrow> string list" where
  "str_split s = split_from [] s"

definition str_replace_char :: "char \<Rightarrow> char \<Rightarrow> string \<Rightarrow> string" where
  \<comment> \<open>\<^verbatim>\<open>s.replace(a, b)\<close> for one-character \<^verbatim>\<open>a\<close> and \<^verbatim>\<open>b\<close>\<close>
  "str_replace_char a b s = map (\<lambda>c. if c = a then b else c) s"

definition is_ascii_lower :: "char \<Rightarrow> bool" where
  "is_ascii_lower c = (let n = (of_char c :: nat) in 97 \<le> n \<and> n \<le> 122)"

fun upper_char :: "char \<Rightarrow> char" where
  "upper_char (Char b0 b1 b2 b3 b4 b5 b6 b7) =
     (if is_ascii_lower (Char b0 b1 b2 b3 b4 b5 b6 b7) then Char b0 b1 b2 b3 b4 False b6 b7
      else Char b0 b1 b2 b3 b4 b5 b6 b7)"

fun title_from :: "bool \<Rightarrow> string \<Rightarrow> string" where
  \<comment> \<open>\<^verbatim>\<open>str.title()\<close> on ASCII text (it is applied to the condition names only): a
      letter after a letter is lowercased, any other letter is capitalised; the flag says
      whether the previous character was a letter\<close>
  "title_from prev [] = []"
| "title_from prev (c # cs) =
     (let cased = (is_ascii_lower c \<or> is_upper c)
      in (if prev then lower_char c else upper_char c) # title_from cased cs)"

definition str_title :: "string \<Rightarrow> string" where
  "str_title s = title_from False s"

section \<open>Python floats\<close>

text \<open>
  A Python \<^verbatim>\<open>float\<close> is a binary64 number. Its values are modelled as reals, and every
  literal and every arithmetic operation rounds its exact result with a function
  \<open>rnd\<close>, the parameter of the model that stands for rounding to the nearest binary64
  number. What the proofs use of it is collected in \<open>rounding\<close>: it is monotone, it
  maps 0 to 0, and a rounded value rounds to itself. Exact arithmetic (the identity)
  is one such function.
\<close>

definition rounding :: "(real \<Rightarrow> real) \<Rightarrow> bool" where
  "rounding rnd \<longleftrightarrow> mono rnd \<and> rnd 0 = 0 \<and> (\<forall>x. rnd (rnd x) = rnd x)"

definition float_lit :: "(real \<Rightarrow> real) \<Rightarrow> real \<Rightarrow> real" where
  \<comment> \<open>a decimal literal of the source\<close>
  "float_lit rnd q = rnd q"

definition float_of_int :: "(real \<Rightarrow> real) \<Rightarrow> int \<Rightarrow> real" where
  "float_of_int rnd n = rnd (of_int n)"

definition float_add :: "(real \<Rightarrow> real) \<Rightarrow> real \<Rightarrow> real \<Rightarrow> real" where
  "float_add rnd a b = rnd (a + b)"

definition float_mul :: "(real \<Rightarrow> real) \<Rightarrow> real \<Rightarrow> real \<Rightarrow> real" where
  "float_mul rnd a b = rnd (a * b)"

section \<open>health\_ai.py: the knowledge base\<close>

record SymptomAnalysis =
  symptoms :: "string list"
  severity :: string
  urgency :: string
  confidence :: real
  recommendations :: "ustring set"
  potential_conditions :: "string list"
  is_emergency :: bool
  response :: ustring

text \<open>
  \<open>recommendations\<close> is a set: the normal path returns \<^verbatim>\<open>list(set(recommendations))\<close>,
  a list without duplicates whose order Python does not fix.
\<close>

record category =
  cat_keywords :: "string list"
  severity_indicators :: "(string \<times> string list) list"

record condition =
  cond_symptoms :: "string list"
  cond_recommendations :: "ustring list"

text \<open>Dictionaries are association lists in the order the source writes their keys,
  which is the order Python iterates them in.\<close>

definition emergency_keywords :: "string list" where
  "emergency_keywords =
     [''chest pain'', ''heart attack'', ''stroke'', ''seizure'', ''unconscious'',
      ''difficulty breathing'', ''severe bleeding'', ''poisoning'', ''overdose'',
      ''severe allergic reaction'', ''broken bone'', ''head injury'']"

definition symptom_keywords :: "(string \<times> category) list" where
  "symptom_keywords =
     [(''pain'', \<lparr>
         cat_keywords = [''pain'', ''ache'', ''hurt'', ''sore'', ''tender'', ''throbbing'',
                         ''stabbing''],
         severity_indicators =
           [(''mild'', [''slight'', ''minor'', ''little'']),
            (''moderate'', [''moderate'', ''noticeable'']),
            (''severe'', [''severe'', ''intense'', ''unbearable'', ''excruciating''])]\<rparr>),
      (''fever'', \<lparr>
         cat_keywords = [''fever'', ''temperature'', ''hot'', ''chills'', ''sweating''],
         severity_indicators =
           [(''mild'', [''low grade'', ''slight fever'']),
            (''moderate'', [''fever'', ''high temperature'']),
            (''severe'', [''high fever'', ''burning up''])]\<rparr>),
      (''respiratory'', \<lparr>
         cat_keywords = [''cough'', ''breathing'', ''shortness of breath'', ''wheezing'',
                         ''congestion''],
         severity_indicators =
           [(''mild'', [''slight cough'', ''light congestion'']),
            (''moderate'', [''persistent cough'', ''difficulty breathing'']),
            (''severe'', [''severe breathing problems'',
                          ''can'' @ [CHR 0x27] @ ''t breathe''])]\<rparr>),
      (''digestive'', \<lparr>
         cat_keywords = [''nausea'', ''vomiting'', ''diarrhea'', ''stomach pain'',
                         ''constipation''],
         severity_indicators =
           [(''mild'', [''slight nausea'', ''mild stomach upset'']),
            (''moderate'', [''vomiting'', ''stomach pain'']),
            (''severe'', [''severe vomiting'', ''intense stomach pain''])]\<rparr>),
      (''neurological'', \<lparr>
         cat_keywords = [''headache'', ''dizziness'', ''confusion'', ''memory problems''],
         severity_indicators =
           [(''mild'', [''mild headache'', ''slight dizziness'']),
            (''moderate'', [''headache'', ''dizzy'']),
            (''severe'', [''severe headache'', ''extreme dizziness'', ''confusion''])]\<rparr>)]"

definition common_conditions :: "(string \<times> condition) list" where
  "common_conditions =
     [(''cold'', \<lparr>
         cond_symptoms = [''runny nose'', ''sneezing'', ''mild cough'', ''sore throat''],
         cond_recommendations =
           [ustr ''Get plenty of rest'', ustr ''Drink fluids'',
            ustr ''Consider over-the-counter medications'',
            ustr ''Monitor symptoms for 7-10 days'']\<rparr>),
      (''flu'', \<lparr>
         cond_symptoms = [''fever'', ''body aches'', ''fatigue'', ''cough''],
         cond_recommendations =
           [ustr ''Rest and isolation'', ustr ''Increase fluid intake'',
            ustr ''Consider antiviral medication if within 48 hours'',
            ustr ''Seek medical care if symptoms worsen'']\<rparr>),
      (''headache'', \<lparr>
         cond_symptoms = [''head pain'', ''pressure'', ''tension''],
         cond_recommendations =
           [ustr ''Rest in a quiet, dark room'', ustr ''Apply cold or warm compress'',
            ustr ''Stay hydrated'', ustr ''Consider over-the-counter pain relievers'']\<rparr>),
      (''stomach_bug'', \<lparr>
         cond_symptoms = [''nausea'', ''vomiting'', ''diarrhea'', ''stomach cramps''],
         cond_recommendations =
           [ustr ''Stay hydrated with clear fluids'',
            ustr ''BRAT diet (bananas, rice, applesauce, toast)'', ustr ''Rest'',
            ustr ''Avoid dairy and fatty foods'']\<rparr>)]"

definition general_advice :: "ustring list" where
  "general_advice =
     [ustr ''This is not a substitute for professional medical advice'',
      ustr ''Consult a healthcare provider for persistent or severe symptoms'',
      ustr ''Call emergency services for life-threatening situations'',
      ustr ''Keep track of your symptoms and their progression'']"

section \<open>health\_ai.py: the emergency detector\<close>

definition is_emergency_msg :: "string \<Rightarrow> bool" where
  \<comment> \<open>\<^verbatim>\<open>HealthAI._is_emergency\<close>\<close>
  "is_emergency_msg message = list_ex (\<lambda>keyword. sublist keyword message) emergency_keywords"

definition create_emergency_response :: "(real \<Rightarrow> real) \<Rightarrow> string \<Rightarrow> SymptomAnalysis" where
  \<comment> \<open>\<^verbatim>\<open>HealthAI._create_emergency_response\<close>; the constructor call gives no
      \<^verbatim>\<open>is_emergency\<close> and no \<^verbatim>\<open>response\<close>, so both keep the defaults of the dataclass\<close>
  "create_emergency_response rnd message = \<lparr>
     symptoms = [''emergency situation detected''],
     severity = ''severe'',
     urgency = ''emergency'',
     confidence = float_lit rnd (9 / 10),
     recommendations = set
       [[0x1F6A8] @ ustr '' EMERGENCY: Call emergency services immediately (911)'',
        ustr ''If possible, go to the nearest emergency room'',
        ustr ''Do not drive yourself if experiencing severe symptoms'',
        ustr ''Stay calm and follow emergency operator instructions''],
     potential_conditions = [''medical emergency''],
     is_emergency = False,
     response = []\<rparr>"

section \<open>health\_ai.py: the symptom extractor\<close>

text \<open>
  The five patterns of \<^verbatim>\<open>_extract_symptoms\<close> have one shape: a literal, the lazy group
  \<^verbatim>\<open>(.*?)\<close>, and a tail. \<^verbatim>\<open>re.findall\<close> with one group returns the group of every
  match, the matches found left to right without overlap. The flag \<^verbatim>\<open>re.IGNORECASE\<close>
  compares the lowercase of a character with the (lowercase) character of the pattern.
\<close>

datatype tail =
    ClauseEnd    \<comment> \<open>\<^verbatim>\<open>(?:\.|$)\<close>\<close>
  | Hurts        \<comment> \<open>\<^verbatim>\<open> hurts?\<close>\<close>
  | Bothering    \<comment> \<open>\<^verbatim>\<open> is bothering me\<close>\<close>

record pattern =
  lit :: string
  tl_of :: tail

definition symptom_patterns :: "pattern list" where
  "symptom_patterns =
     [\<lparr>lit = ''i have '', tl_of = ClauseEnd\<rparr>,
      \<lparr>lit = ''experiencing '', tl_of = ClauseEnd\<rparr>,
      \<lparr>lit = ''feeling '', tl_of = ClauseEnd\<rparr>,
      \<lparr>lit = ''my '', tl_of = Hurts\<rparr>,
      \<lparr>lit = [], tl_of = Bothering\<rparr>]"

fun ci_literal :: "string \<Rightarrow> string \<Rightarrow> string option" where
  \<comment> \<open>match a literal of the pattern at the start of the text; the result is the rest\<close>
  "ci_literal [] s = Some s"
| "ci_literal (p # ps) [] = None"
| "ci_literal (p # ps) (c # cs) = (if lower_char c = p then ci_literal ps cs else None)"

fun match_tail :: "tail \<Rightarrow> string \<Rightarrow> string option" where
  \<comment> \<open>\<^verbatim>\<open>$\<close> (no \<^verbatim>\<open>re.MULTILINE\<close>) holds at the end of the text and before a final newline\<close>
  "match_tail ClauseEnd s =
     (case ci_literal ''.'' s of
        Some r \<Rightarrow> Some r
      | None \<Rightarrow> if s = [] \<or> s = [CHR 0x0A] then Some s else None)"
| "match_tail Hurts s =
     (case ci_literal '' hurt'' s of
        None \<Rightarrow> None
      | Some r \<Rightarrow> (case ci_literal ''s'' r of Some r' \<Rightarrow> Some r' | None \<Rightarrow> Some r))"
| "match_tail Bothering s = ci_literal '' is bothering me'' s"

fun lazy_group :: "tail \<Rightarrow> string \<Rightarrow> string \<Rightarrow> (string \<times> string) option" where
  \<comment> \<open>\<^verbatim>\<open>(.*?)\<close> followed by the tail: the shortest group after which the tail matches;
      \<^verbatim>\<open>.\<close> is any character but the newline. The second argument is the group read
      so far, reversed; the result is the group and the text after the match.\<close>
  "lazy_group t acc [] =
     (case match_tail t [] of Some r \<Rightarrow> Some (rev acc, r) | None \<Rightarrow> None)"
| "lazy_group t acc (c # cs) =
     (case match_tail t (c # cs) of
        Some r \<Rightarrow> Some (rev acc, r)
      | None \<Rightarrow> if c = CHR 0x0A then None else lazy_group t (c # acc) cs)"

definition match_at :: "pattern \<Rightarrow> string \<Rightarrow> (string \<times> string) option" where
  \<comment> \<open>a match of the whole pattern that starts at the start of the text\<close>
  "match_at p s = (case ci_literal (lit p) s of None \<Rightarrow> None | Some r \<Rightarrow> lazy_group (tl_of p) [] r)"

fun findall :: "pattern \<Rightarrow> string \<Rightarrow> string list" where
  \<comment> \<open>the search goes on after a match, or one character further where none starts; a
      match of these patterns is never empty (\<open>match_at_shorter\<close> below), so the search
      after a match always goes on in a shorter text\<close>
  "findall p [] = (case match_at p [] of Some (g, r) \<Rightarrow> [g] | None \<Rightarrow> [])"
| "findall p (c # cs) =
     (case match_at p (c # cs) of
        Some (g, r) \<Rightarrow> g # (if length r \<le> length cs then findall p r else findall p cs)
      | None \<Rightarrow> findall p cs)"

definition keyword_pass :: "string \<Rightarrow> string list" where
  \<comment> \<open>the first loop of \<^verbatim>\<open>_extract_symptoms\<close>\<close>
  "keyword_pass message =
     foldl (\<lambda>symptoms (category, data).
              foldl (\<lambda>symptoms keyword.
                       if sublist keyword message then symptoms @ [keyword] else symptoms)
                    symptoms (cat_keywords data))
           [] symptom_keywords"

definition pattern_pass :: "string \<Rightarrow> string list \<Rightarrow> string list" where
  \<comment> \<open>the second loop of \<^verbatim>\<open>_extract_symptoms\<close>, started on the list of the first\<close>
  "pattern_pass message symptoms0 =
     foldl (\<lambda>symptoms pattern.
              foldl (\<lambda>symptoms match.
                       let clean_symptom = str_strip match
                       in if length clean_symptom > 2 \<and> clean_symptom \<notin> set symptoms
                          then symptoms @ [clean_symptom] else symptoms)
                    symptoms (findall pattern message))
           symptoms0 symptom_patterns"

definition extract_symptoms :: "string \<Rightarrow> string list" where
  \<comment> \<open>\<^verbatim>\<open>HealthAI._extract_symptoms\<close>\<close>
  "extract_symptoms message = take 10 (pattern_pass message (keyword_pass message))"

section \<open>health\_ai.py: severity, urgency, recommendations, conditions, confidence\<close>

definition assess_severity :: "string \<Rightarrow> string list \<Rightarrow> string" where
  \<comment> \<open>\<^verbatim>\<open>HealthAI._assess_severity\<close>\<close>
  "assess_severity message syms =
     (let severity_score =
            foldl (\<lambda>score (category, data).
                     foldl (\<lambda>score (severity, indicators).
                              foldl (\<lambda>score indicator.
                                       if sublist indicator message then
                                         (if severity = ''mild'' then score + 1
                                          else if severity = ''moderate'' then score + 3
                                          else if severity = ''severe'' then score + 5
                                          else score)
                                       else score)
                                    score indicators)
                           score (severity_indicators data))
                  (0::int) symptom_keywords;
          severity_score = severity_score + int (length syms)
      in if severity_score \<ge> 8 then ''severe''
         else if severity_score \<ge> 4 then ''moderate''
         else ''mild'')"

definition assess_urgency :: "string \<Rightarrow> string list \<Rightarrow> string" where
  \<comment> \<open>\<^verbatim>\<open>HealthAI._assess_urgency\<close>\<close>
  "assess_urgency sev syms =
     (if sev = ''severe'' then ''high''
      else if sev = ''moderate'' then ''medium''
      else ''low'')"

definition generate_recommendations :: "string list \<Rightarrow> string \<Rightarrow> ustring set" where
  \<comment> \<open>\<^verbatim>\<open>HealthAI._generate_recommendations\<close>\<close>
  "generate_recommendations syms sev =
     (let recommendations =
            (if sev = ''severe'' then
               [ustr ''Seek immediate medical attention'',
                ustr ''Consider visiting an urgent care center or emergency room'',
                ustr ''Monitor symptoms closely'']
             else if sev = ''moderate'' then
               [ustr ''Consider consulting with a healthcare provider'',
                ustr ''Monitor symptoms for changes'',
                ustr ''Rest and self-care measures may help'']
             else
               [ustr ''Try home remedies and self-care'',
                ustr ''Monitor symptoms for any worsening'',
                ustr ''Consider over-the-counter treatments if appropriate'']);
          recommendations =
            foldl (\<lambda>recommendations symptom.
                     if sublist ''fever'' symptom then
                       recommendations @ [ustr ''Stay hydrated and consider fever reducers'']
                     else if sublist ''pain'' symptom then
                       recommendations @ [ustr ''Apply appropriate hot/cold therapy'']
                     else if sublist ''cough'' symptom then
                       recommendations @ [ustr ''Try throat lozenges or warm liquids'']
                     else recommendations)
                  recommendations syms;
          recommendations = recommendations @ general_advice
      in set recommendations)"

definition match_count :: "condition \<Rightarrow> string list \<Rightarrow> int" where
  \<comment> \<open>the two inner loops of \<^verbatim>\<open>_identify_conditions\<close>\<close>
  "match_count data syms =
     foldl (\<lambda>n condition_symptom.
              foldl (\<lambda>n user_symptom.
                       if sublist (str_lower condition_symptom) (str_lower user_symptom)
                       then n + 1 else n)
                    n syms)
           0 (cond_symptoms data)"

definition identify_conditions :: "string list \<Rightarrow> string list" where
  \<comment> \<open>\<^verbatim>\<open>HealthAI._identify_conditions\<close>\<close>
  "identify_conditions syms =
     foldl (\<lambda>potential_conditions (condition, data).
              if match_count data syms \<ge> 2
              then potential_conditions @ [str_title (str_replace_char CHR ''_'' CHR '' '' condition)]
              else potential_conditions)
           [] common_conditions"

definition calculate_confidence :: "(real \<Rightarrow> real) \<Rightarrow> string list \<Rightarrow> string \<Rightarrow> real" where
  \<comment> \<open>\<^verbatim>\<open>HealthAI._calculate_confidence\<close>\<close>
  "calculate_confidence rnd syms message =
     (let base_confidence = float_lit rnd (6 / 10);
          symptom_bonus =
            min (float_mul rnd (float_of_int rnd (int (length syms))) (float_lit rnd (1 / 10)))
                (float_lit rnd (3 / 10));
          message_length_bonus =
            min (float_mul rnd (float_of_int rnd (int (length (str_split message))))
                               (float_lit rnd (1 / 100)))
                (float_lit rnd (1 / 10))
      in min (float_add rnd (float_add rnd base_confidence symptom_bonus) message_length_bonus)
             (float_lit rnd (95 / 100)))"

section \<open>health\_ai.py: the analysis\<close>

definition analyze_message :: "(real \<Rightarrow> real) \<Rightarrow> string \<Rightarrow> SymptomAnalysis" where
  \<comment> \<open>\<^verbatim>\<open>HealthAI.analyze_message\<close>\<close>
  "analyze_message rnd message0 =
     (let message = str_strip (str_lower message0)
      in if is_emergency_msg message then create_emergency_response rnd message
         else
           let symptoms = extract_symptoms message;
               severity = assess_severity message symptoms;
               urgency = assess_urgency severity symptoms;
               recommendations = generate_recommendations symptoms severity;
               potential_conditions = identify_conditions symptoms;
               confidence = calculate_confidence rnd symptoms message
           in \<lparr>symptoms = symptoms,
               severity = severity,
               urgency = urgency,
               confidence = confidence,
               recommendations = recommendations,
               potential_conditions = potential_conditions,
               is_emergency = False,
               response = []\<rparr>)"

definition get_health_tips :: "ustring list" where
  \<comment> \<open>\<^verbatim>\<open>HealthAI.get_health_tips\<close>\<close>
  "get_health_tips =
     [[0x1F4A7] @ ustr '' Stay hydrated - drink 8 glasses of water daily'',
      [0x1F3C3, 0x200D, 0x2642, 0xFE0F] @
        ustr '' Get regular exercise - at least 30 minutes daily'',
      [0x1F634] @ ustr '' Maintain good sleep hygiene - 7-9 hours per night'',
      [0x1F957] @ ustr '' Eat a balanced diet with plenty of fruits and vegetables'',
      [0x1F9FC] @ ustr '' Wash your hands regularly to prevent infections'',
      [0x1F60C] @ ustr '' Manage stress through relaxation techniques'',
      [0x1FA7A] @ ustr '' Schedule regular check-ups with your healthcare provider'']"

section \<open>gemini\_ai.py: the enhanced assistant\<close>

text \<open>
  An exception is a value: a function that can raise returns \<open>exn + 'a\<close>, with \<open>Inl\<close>
  for the exception raised. \<open>exn\<close> stands for the instances of Python's \<^verbatim>\<open>Exception\<close>,
  which \<^verbatim>\<open>except Exception\<close> catches; the text is what \<^verbatim>\<open>str(e)\<close> gives.

  The calls a handler makes to its collaborators, and the errors it logs, are recorded
  in the list of events it returns beside its result, in the order they happen.
\<close>

datatype exn = Exception ustring

fun exn_str :: "exn \<Rightarrow> ustring" where
  "exn_str (Exception msg) = msg"

datatype event =
    HealthAnalysis string                     \<comment> \<open>\<^verbatim>\<open>health_ai.analyze_message(message)\<close>\<close>
  | GeminiCall ustring                        \<comment> \<open>\<^verbatim>\<open>gemini_model.generate_content(prompt)\<close>\<close>
  | DbGetUserInfo ustring                     \<comment> \<open>\<^verbatim>\<open>db.get_user_info(phone_number)\<close>\<close>
  | DbStoreMessage ustring ustring ustring    \<comment> \<open>\<^verbatim>\<open>db.store_message(phone_number, body, type)\<close>\<close>
  | LogError ustring                          \<comment> \<open>\<^verbatim>\<open>logger.error(text)\<close>\<close>

record gemini_response =
  response_text :: "exn + ustring"    \<comment> \<open>the property \<^verbatim>\<open>response.text\<close>, which can raise\<close>

text \<open>
  The state of an \<^verbatim>\<open>EnhancedAI\<close> after \<^verbatim>\<open>__init__\<close>: the flag, the generative model
  (an external service, given by what its call returns), and the rendering
  \<^verbatim>\<open>HealthAI.format_response\<close> of an analysis, which is taken as given.
\<close>

record EnhancedAI =
  gemini_available :: bool
  generate_content :: "ustring \<Rightarrow> exn + gemini_response"
  format_response :: "SymptomAnalysis \<Rightarrow> ustring \<Rightarrow> exn + ustring"

definition health_keywords :: "string list" where
  "health_keywords =
     [''pain'', ''hurt'', ''ache'', ''fever'', ''sick'', ''ill'', ''nausea'', ''vomit'',
      ''headache'', ''stomach'', ''cough'', ''cold'', ''flu'', ''dizzy'', ''tired'',
      ''fatigue'', ''symptom'', ''doctor'', ''medicine'', ''treatment'', ''health'',
      ''medical'', ''hospital'', ''injury'', ''wound'', ''bleeding'', ''infection'',
      ''allergy'', ''rash'', ''breathing'', ''chest'', ''heart'', ''temperature'',
      ''swollen'', ''sore'', ''cramp'', ''sprain'', ''broken'', ''burn'', ''cut'']"

definition health_patterns :: "string list" where
  "health_patterns =
     [''i feel'', ''i have'', ''my body'', ''experiencing'', ''suffering from'',
      ''what should i do for'', ''how to treat'', ''is it normal'',
      ''should i see a doctor'', ''medical advice'']"

definition is_health_related :: "string \<Rightarrow> bool" where
  \<comment> \<open>\<^verbatim>\<open>EnhancedAI.is_health_related\<close>\<close>
  "is_health_related message =
     (let message_lower = str_lower message
      in if list_ex (\<lambda>keyword. sublist keyword message_lower) health_keywords then True
         else if list_ex (\<lambda>pattern. sublist pattern message_lower) health_patterns then True
         else False)"

definition get_fallback_health_response :: "ustring \<Rightarrow> ustring" where
  \<comment> \<open>\<^verbatim>\<open>EnhancedAI._get_fallback_health_response\<close>\<close>
  "get_fallback_health_response user_name =
     ustr ''Hi '' @ user_name @
     ustr ''! I'' @ [39] @ ustr ''m having trouble analyzing your symptoms right now.'' @
     [10] @ ustr ''        '' @ [10, 240, 0x178, 165] @
     ustr '' For health concerns, I recommend:'' @ [10, 226, 0x20AC, 162] @
     ustr '' Consulting with a healthcare professional'' @ [10, 226, 0x20AC, 162] @
     ustr '' Calling your doctor if symptoms are concerning'' @ [10, 226, 0x20AC, 162] @
     ustr '' Visiting urgent care for serious issues'' @ [10, 226, 0x20AC, 162] @
     ustr '' Calling 911 for emergencies'' @ [10, 10, 240, 0x178, 0x2019, 161] @
     ustr '' You can also try rephrasing your question and I'' @ [39] @
     ustr ''ll do my best to help!''"

definition get_fallback_general_response :: "ustring \<Rightarrow> ustring" where
  \<comment> \<open>\<^verbatim>\<open>EnhancedAI._get_fallback_general_response\<close>\<close>
  "get_fallback_general_response user_name =
     ustr ''Hi '' @ user_name @
     ustr ''! I'' @ [39] @
     ustr ''m currently optimized for health and medical questions.'' @ [10] @
     ustr ''        '' @ [10, 240, 0x178, 165] @ ustr '' I can help you with:'' @
     [10, 226, 0x20AC, 162] @ ustr '' Symptom analysis'' @ [10, 226, 0x20AC, 162] @
     ustr '' Health recommendations  '' @ [10, 226, 0x20AC, 162] @
     ustr '' Medical advice and guidance'' @ [10, 226, 0x20AC, 162] @
     ustr '' Emergency situation assessment'' @ [10, 10, 240, 0x178, 0x2019, 161] @
     ustr '' Try asking me about any health concerns you might have!'' @
     [10, 10, 226, 0x161, 160, 239, 184] @ ustr '' For other topics, I'' @ [39] @
     ustr ''m still learning. My AI capabilities are expanding soon!''"

definition handle_health_question ::
  "(real \<Rightarrow> real) \<Rightarrow> EnhancedAI \<Rightarrow> string \<Rightarrow> ustring \<Rightarrow> (exn + ustring) \<times> event list" where
  \<comment> \<open>\<^verbatim>\<open>EnhancedAI._handle_health_question\<close>\<close>
  "handle_health_question rnd ai message user_name =
     (let analysis = analyze_message rnd message
      in case format_response ai analysis user_name of
           Inr resp \<Rightarrow>
             (Inr (if gemini_available ai then
                     resp @ [10, 10, 240, 0x178, 0x2019, 161] @
                     ustr '' I can also help with general questions, advice, or any '' @
                     ustr ''other topics!''
                   else resp),
              [HealthAnalysis message])
         | Inl e \<Rightarrow>
             (Inr (get_fallback_health_response user_name),
              [HealthAnalysis message, LogError (ustr ''Health analysis error: '' @ exn_str e)]))"

definition general_prompt :: "string \<Rightarrow> ustring" where
  \<comment> \<open>the f-string \<^verbatim>\<open>prompt\<close> of \<^verbatim>\<open>_handle_general_question\<close>\<close>
  "general_prompt message =
     ustr ''You are a helpful AI assistant responding to a WhatsApp '' @
     ustr ''message. '' @ [10] @
     ustr ''            Keep your response concise (under 300 words)'' @
     ustr '', friendly, and helpful.'' @ [10] @ ustr ''            '' @ [10] @
     ustr ''            User'' @ [39] @ ustr ''s message: '' @ ustr message @
     [10] @ ustr ''            '' @ [10] @
     ustr ''            Provide a helpful response. If it'' @ [39] @
     ustr ''s a question, answer it clearly. '' @ [10] @ ustr ''            If it'' @
     [39] @ ustr ''s a request for advice, provide practical suggestions.'' @ [10] @
     ustr ''            Use emojis sparingly but appropriately to ma'' @
     ustr ''ke it friendly for messaging.''"

definition handle_general_question ::
  "EnhancedAI \<Rightarrow> string \<Rightarrow> ustring \<Rightarrow> (exn + ustring) \<times> event list" where
  \<comment> \<open>\<^verbatim>\<open>EnhancedAI._handle_general_question\<close>; \<open>attempt\<close> is the \<^verbatim>\<open>try\<close> block\<close>
  "handle_general_question ai message user_name =
     (if \<not> gemini_available ai then (Inr (get_fallback_general_response user_name), [])
      else
        let prompt = general_prompt message;
            attempt =
              (case generate_content ai prompt of
                 Inl e \<Rightarrow> Inl e
               | Inr resp \<Rightarrow>
                   (case response_text resp of
                      Inl e \<Rightarrow> Inl e
                    | Inr text \<Rightarrow>
                        Inr (ustr ''Hi '' @ user_name @ ustr ''! '' @ text @
                             [10, 10, 240, 0x178, 165] @
                             ustr '' Need health advice? I can also analyze symptoms and pro'' @
                             ustr ''vide medical guidance!'')))
        in case attempt of
             Inr ai_response \<Rightarrow> (Inr ai_response, [GeminiCall prompt])
           | Inl e \<Rightarrow>
               (Inr (get_fallback_general_response user_name),
                [GeminiCall prompt, LogError (ustr ''Gemini API error: '' @ exn_str e)]))"

definition enhanced_analyze_message ::
  "(real \<Rightarrow> real) \<Rightarrow> EnhancedAI \<Rightarrow> string \<Rightarrow> ustring \<Rightarrow> (exn + ustring) \<times> event list" where
  \<comment> \<open>\<^verbatim>\<open>EnhancedAI.analyze_message\<close>\<close>
  "enhanced_analyze_message rnd ai message user_name =
     (if is_health_related message then handle_health_question rnd ai message user_name
      else handle_general_question ai message user_name)"

definition enhanced_get_health_tips :: ustring where
  \<comment> \<open>\<^verbatim>\<open>EnhancedAI.get_health_tips\<close>\<close>
  "enhanced_get_health_tips = str_join [10] get_health_tips"

section \<open>whatsapp\_bot.py: the message handler\<close>

text \<open>
  The database is an external collaborator, given by what its two calls return. Of the
  dictionary that \<^verbatim>\<open>get_user_info\<close> returns only the key \<^verbatim>\<open>name\<close> is read; its value
  can be \<^verbatim>\<open>None\<close>.
\<close>

record user_info =
  name :: "ustring option"

record DatabaseManager =
  get_user_info :: "ustring \<Rightarrow> exn + user_info option"
  store_message :: "ustring \<Rightarrow> ustring \<Rightarrow> ustring \<Rightarrow> exn + unit"

record WhatsAppBot =
  enhanced_ai :: EnhancedAI
  db :: DatabaseManager

definition get_welcome_message :: ustring where
  \<comment> \<open>\<^verbatim>\<open>WhatsAppBot._get_welcome_message\<close>\<close>
  "get_welcome_message =
     [0x1F44B] @ ustr '' Welcome to your AI Assistant!'' @ [10, 10] @ ustr ''I'' @ [39] @
     ustr ''m here to help you with:'' @ [10, 0x1FA7A] @
     ustr '' Health questions and symptom analysis'' @ [10, 0x1F916] @
     ustr '' General questions and advice'' @ [10, 0x1F4A1] @
     ustr '' Tips and guidance on any topic'' @ [10, 10, 0x1F539] @
     ustr '' Ask me about your health concerns'' @ [10, 0x1F539] @
     ustr '' Ask me general questions (weather, advice, etc.)'' @ [10, 0x1F539] @
     ustr '' Type '' @ [39] @ ustr ''help'' @ [39] @ ustr '' for more options'' @
     [10, 10, 0x26A0, 0xFE0F] @
     ustr '' IMPORTANT: For medical emergencies, call 911 immediatel'' @ ustr ''y.'' @
     [10, 10] @ ustr ''How can I help you today?''"

definition get_help_message :: ustring where
  \<comment> \<open>\<^verbatim>\<open>WhatsAppBot._get_help_message\<close>\<close>
  "get_help_message =
     [0x1F198] @ ustr '' How I can help you:'' @ [10, 10] @ ustr ''1. '' @ [0x1FA7A] @
     ustr '' **Health & Medical Questions**'' @ [10] @
     ustr ''   Describe your symptoms for personalized health guidan'' @ ustr ''ce'' @
     [10, 10] @ ustr ''2. '' @ [0x1F916] @ ustr '' **General AI Assistant**'' @ [10] @
     ustr ''   Ask me anything! I can help with advice, questions, e'' @
     ustr ''xplanations, and more'' @ [10, 10] @ ustr ''3. '' @ [0x1F4A1] @
     ustr '' **Health Tips**'' @ [10] @ ustr ''   Type '' @ [39] @ ustr ''tips'' @ [39] @
     ustr '' for general health advice'' @ [10, 10] @ ustr ''4. '' @ [0x1F6A8] @
     ustr '' **Emergencies**'' @ [10] @
     ustr ''   For medical emergencies, call 911 immediately'' @ [10, 10] @
     ustr ''**Example messages:**'' @ [10, 0x2022, 32, 34] @
     ustr ''I have a headache and feel nauseous'' @ [34, 10, 0x2022, 32, 34] @
     ustr ''What'' @ [39] @ ustr ''s the weather like today?'' @ [34, 10, 0x2022, 32, 34] @
     ustr ''Tell me a joke'' @ [34, 10, 0x2022, 32, 34] @ ustr ''How do I cook pasta?'' @
     [34, 10, 0x2022, 32, 34] @ ustr ''Give me some health tips'' @ [34, 10, 10] @
     ustr ''I'' @ [39] @ ustr ''m powered by advanced AI and can help with both medical '' @
     ustr ''and general questions!''"

definition bot_get_health_tips :: ustring where
  \<comment> \<open>\<^verbatim>\<open>WhatsAppBot._get_health_tips\<close>\<close>
  "bot_get_health_tips =
     (let tips = enhanced_get_health_tips
      in [0x1F4A1] @ ustr '' Daily Health Tips:'' @ [10, 10] @ tips @
         [10, 10] @ ustr ''Remember: Small daily habits make a big difference in yo'' @
         ustr ''ur overall health! '' @ [10, 10] @
         ustr ''Need help with specific symptoms or have other questions'' @
         ustr ''? Just ask me anything!'')"

definition get_emergency_message :: ustring where
  \<comment> \<open>\<^verbatim>\<open>WhatsAppBot._get_emergency_message\<close>\<close>
  "get_emergency_message =
     [0x1F6A8] @ ustr '' EMERGENCY RESPONSE '' @ [0x1F6A8, 10, 10] @
     ustr ''If this is a medical emergency:'' @ [10, 0x1F4DE] @
     ustr '' Call 911 immediately'' @ [10, 0x1F3E5] @
     ustr '' Go to the nearest emergency room'' @ [10, 10] @
     ustr ''For urgent but non-emergency care:'' @ [10, 0x1F4DE] @
     ustr '' Call your doctor'' @ [10, 0x1F3E5] @ ustr '' Visit an urgent care center'' @
     [10, 10] @ ustr ''I'' @ [39] @
     ustr ''m an AI assistant and cannot provide emergency medical c'' @
     ustr ''are. Please seek immediate professional help for serious'' @
     ustr '' medical situations.'' @ [10, 10] @ ustr ''Stay safe! '' @ [0x1F64F]"

definition debug_error :: "exn \<Rightarrow> ustring \<times> event list" where
  \<comment> \<open>the \<^verbatim>\<open>except\<close> block of \<^verbatim>\<open>_analyze_message\<close>\<close>
  "debug_error e =
     (ustr ''Debug Error: '' @ exn_str e,
      [LogError (ustr ''Error in message analysis: '' @ exn_str e)])"

definition bot_analyze_message ::
  "(real \<Rightarrow> real) \<Rightarrow> WhatsAppBot \<Rightarrow> ustring \<Rightarrow> string \<Rightarrow> ustring \<times> event list" where
  \<comment> \<open>\<^verbatim>\<open>WhatsAppBot._analyze_message\<close>. A name that is \<^verbatim>\<open>None\<close> is only ever put into
      f-strings, where it reads \<^verbatim>\<open>None\<close>. The attribute \<^verbatim>\<open>enhanced_ai\<close> is set by
      \<^verbatim>\<open>__init__\<close>, so the \<^verbatim>\<open>hasattr\<close> test holds.\<close>
  "bot_analyze_message rnd self phone_number message =
     (case get_user_info (db self) phone_number of
        Inl e \<Rightarrow>
          (let (reply, log) = debug_error e in (reply, [DbGetUserInfo phone_number] @ log))
      | Inr info \<Rightarrow>
          let user_name =
                (case info of
                   None \<Rightarrow> ustr ''there''
                 | Some d \<Rightarrow> (case name d of None \<Rightarrow> ustr ''None'' | Some n \<Rightarrow> n));
              (result, events) = enhanced_analyze_message rnd (enhanced_ai self) message user_name
          in case result of
               Inl e \<Rightarrow>
                 (let (reply, log) = debug_error e
                  in (reply, [DbGetUserInfo phone_number] @ events @ log))
             | Inr resp \<Rightarrow>
                 let body = ustr ''AI Response: '' @ take 100 resp @ ustr ''...'';
                     stored = DbStoreMessage phone_number body (ustr ''analysis'')
                 in case store_message (db self) phone_number body (ustr ''analysis'') of
                      Inl e \<Rightarrow>
                        (let (reply, log) = debug_error e
                         in (reply, [DbGetUserInfo phone_number] @ events @ [stored] @ log))
                    | Inr u \<Rightarrow> (resp, [DbGetUserInfo phone_number] @ events @ [stored]))"

definition handle_message ::
  "(real \<Rightarrow> real) \<Rightarrow> WhatsAppBot \<Rightarrow> ustring \<Rightarrow> string \<Rightarrow> ustring \<times> event list" where
  \<comment> \<open>\<^verbatim>\<open>WhatsAppBot._handle_message\<close>\<close>
  "handle_message rnd self phone_number message =
     (let message_lower = str_strip (str_lower message)
      in if list_ex (\<lambda>greeting. sublist greeting message_lower)
                    [''hi'', ''hello'', ''hey'', ''start'']
         then (get_welcome_message, [])
         else if list_ex (\<lambda>help_word. sublist help_word message_lower)
                         [''help'', ''menu'', ''options'']
         then (get_help_message, [])
         else if sublist ''tips'' message_lower \<or> sublist ''advice'' message_lower
         then (bot_get_health_tips, [])
         else if list_ex (\<lambda>emergency. sublist emergency message_lower)
                         [''emergency'', ''911'', ''urgent'']
         then (get_emergency_message, [])
         else bot_analyze_message rnd self phone_number message)"

section \<open>The specification's reading of the pipeline\<close>

text \<open>
  The definitions of this section follow the words of the specification, not the code;
  the theorems below compare them with the functions above.
\<close>

definition indicator_triples :: "(string \<times> string \<times> string) list" where
  \<comment> \<open>every (category, severity level, indicator phrase) of the knowledge base\<close>
  "indicator_triples =
     concat (map (\<lambda>(cat, data).
               concat (map (\<lambda>(level, indicators). map (\<lambda>indicator. (cat, level, indicator)) indicators)
                           (severity_indicators data)))
             symptom_keywords)"

definition level_weight :: "string \<Rightarrow> int" where
  \<comment> \<open>mild +1, moderate +3, severe +5\<close>
  "level_weight level =
     (if level = ''mild'' then 1 else if level = ''moderate'' then 3
      else if level = ''severe'' then 5 else 0)"

definition indicator_score :: "string \<Rightarrow> int" where
  \<comment> \<open>the weights of all triples whose phrase occurs in the text, added up from 0\<close>
  "indicator_score txt =
     sum_list (map (\<lambda>(cat, level, indicator). level_weight level)
                   (filter (\<lambda>(cat, level, indicator). sublist indicator txt) indicator_triples))"

definition severity_of_score :: "int \<Rightarrow> string" where
  \<comment> \<open>score at least 8: severe; from 4 to 7: moderate; below 4: mild\<close>
  "severity_of_score score =
     (if score \<ge> 8 then ''severe''
      else if 4 \<le> score \<and> score < 8 then ''moderate''
      else ''mild'')"

definition confidence_formula :: "(real \<Rightarrow> real) \<Rightarrow> nat \<Rightarrow> nat \<Rightarrow> real" where
  \<comment> \<open>\<^verbatim>\<open>min(0.6 + min(0.1 * symptom_count, 0.3) + min(0.01 * word_count, 0.1), 0.95)\<close>\<close>
  "confidence_formula rnd symptom_count word_count =
     min (float_add rnd
            (float_add rnd (float_lit rnd (6 / 10))
               (min (float_mul rnd (float_lit rnd (1 / 10)) (float_of_int rnd (int symptom_count)))
                    (float_lit rnd (3 / 10))))
            (min (float_mul rnd (float_lit rnd (1 / 100)) (float_of_int rnd (int word_count)))
                 (float_lit rnd (1 / 10))))
         (float_lit rnd (95 / 100))"

definition all_keywords :: "string list" where
  \<comment> \<open>the keywords of all categories, in category-then-keyword order\<close>
  "all_keywords = concat (map (\<lambda>(cat, data). cat_keywords data) symptom_keywords)"

definition keyword_hits :: "string \<Rightarrow> string list" where
  \<comment> \<open>the keyword pass: the keywords that occur in the text, in that order\<close>
  "keyword_hits txt = filter (\<lambda>keyword. sublist keyword txt) all_keywords"

definition captures :: "string \<Rightarrow> string list" where
  \<comment> \<open>what the five patterns capture, pattern by pattern, each from left to right\<close>
  "captures txt = concat (map (\<lambda>p. findall p txt) symptom_patterns)"

fun keep_new :: "string list \<Rightarrow> string list \<Rightarrow> string list" where
  \<comment> \<open>of the candidates, in their order, those that are longer than 2 characters and
      not already present (in \<open>seen\<close>, or kept earlier)\<close>
  "keep_new seen [] = []"
| "keep_new seen (c # cs) =
     (if length c > 2 \<and> c \<notin> set seen then c # keep_new (seen @ [c]) cs else keep_new seen cs)"

definition pattern_hits :: "string \<Rightarrow> string list" where
  \<comment> \<open>the pattern pass: the trimmed captures kept after the keyword pass\<close>
  "pattern_hits txt = keep_new (keyword_hits txt) (map str_strip (captures txt))"




definition is_greeting :: "string \<Rightarrow> bool" where
  \<comment> \<open>the lowercased, trimmed message contains one of the four greeting words\<close>
  "is_greeting message =
     list_ex (\<lambda>greeting. sublist greeting (str_strip (str_lower message)))
             [''hi'', ''hello'', ''hey'', ''start'']"

definition delegate_fails :: "EnhancedAI \<Rightarrow> string \<Rightarrow> bool" where
  \<comment> \<open>the general-question delegate is unavailable, or its call (or reading the text of
      its answer) raises\<close>
  "delegate_fails ai message =
     (if \<not> gemini_available ai then True
      else case generate_content ai (general_prompt message) of
             Inl e \<Rightarrow> True
           | Inr resp \<Rightarrow> (case response_text resp of Inl e \<Rightarrow> True | Inr t \<Rightarrow> False))"

definition is_health_analysis :: "event \<Rightarrow> bool" where
  \<comment> \<open>the event is a run of the triage core\<close>
  "is_health_analysis e = (case e of HealthAnalysis m \<Rightarrow> True | _ \<Rightarrow> False)"

definition runs_triage :: "event list \<Rightarrow> bool" where
  \<comment> \<open>the triage core (emergency detector and pipeline) ran at least once\<close>
  "runs_triage events = list_ex is_health_analysis events"

definition is_help_request :: "string \<Rightarrow> bool" where
  \<comment> \<open>the lowercased, trimmed message contains one of the three help words\<close>
  "is_help_request message =
     list_ex (\<lambda>help_word. sublist help_word (str_strip (str_lower message)))
             [''help'', ''menu'', ''options'']"

definition is_tips_request :: "string \<Rightarrow> bool" where
  \<comment> \<open>the lowercased, trimmed message contains \<^verbatim>\<open>tips\<close> or \<^verbatim>\<open>advice\<close>\<close>
  "is_tips_request message =
     (sublist ''tips'' (str_strip (str_lower message)) \<or>
      sublist ''advice'' (str_strip (str_lower message)))"

definition is_emergency_request :: "string \<Rightarrow> bool" where
  \<comment> \<open>the lowercased, trimmed message contains one of the handler's own emergency
      keywords\<close>
  "is_emergency_request message =
     list_ex (\<lambda>emergency. sublist emergency (str_strip (str_lower message)))
             [''emergency'', ''911'', ''urgent'']"

section \<open>Helper lemmas\<close>

subsection \<open>Rounding\<close>

lemma rounding_mono: "rounding rnd \<Longrightarrow> x \<le> y \<Longrightarrow> rnd x \<le> rnd y"
  by (simp add: rounding_def mono_def)

lemma rounding_zero: "rounding rnd \<Longrightarrow> rnd 0 = 0"
  by (simp add: rounding_def)

lemma rounding_idem: "rounding rnd \<Longrightarrow> rnd (rnd x) = rnd x"
  by (simp add: rounding_def)

lemma rounding_nonneg: "rounding rnd \<Longrightarrow> 0 \<le> x \<Longrightarrow> 0 \<le> rnd x"
  using rounding_mono [of rnd 0 x] by (simp add: rounding_zero)

lemma rounding_id: "rounding (\<lambda>x. x)"
  by (simp add: rounding_def mono_def)

lemma bonus_nonneg:
  assumes r: "rounding rnd" and q: "0 \<le> q" and c: "0 \<le> c"
  shows "0 \<le> min (float_mul rnd (float_lit rnd q) (float_of_int rnd (int n))) (float_lit rnd c)"
proof -
  have "(0::real) \<le> of_int (int n)" by simp
  then have 1: "0 \<le> rnd (of_int (int n))" by (rule rounding_nonneg [OF r])
  have 2: "0 \<le> rnd q" using q by (rule rounding_nonneg [OF r])
  have "0 \<le> rnd q * rnd (of_int (int n))" using 2 1 by (rule mult_nonneg_nonneg)
  then have 3: "0 \<le> rnd (rnd q * rnd (of_int (int n)))" by (rule rounding_nonneg [OF r])
  have 4: "0 \<le> rnd c" using c by (rule rounding_nonneg [OF r])
  show ?thesis
    unfolding float_mul_def float_of_int_def float_lit_def using 3 4 by (rule min.boundedI)
qed

lemma bonus_mono:
  assumes r: "rounding rnd" and q: "0 \<le> q" and n: "n \<le> n'"
  shows "min (float_mul rnd (float_lit rnd q) (float_of_int rnd (int n))) c
       \<le> min (float_mul rnd (float_lit rnd q) (float_of_int rnd (int n'))) c"
proof -
  have "(of_int (int n) :: real) \<le> of_int (int n')" using n by simp
  then have 1: "rnd (of_int (int n)) \<le> rnd (of_int (int n'))" by (rule rounding_mono [OF r])
  have 2: "0 \<le> rnd q" using q by (rule rounding_nonneg [OF r])
  have "rnd q * rnd (of_int (int n)) \<le> rnd q * rnd (of_int (int n'))"
    using 1 2 by (rule mult_left_mono)
  then have 3: "rnd (rnd q * rnd (of_int (int n))) \<le> rnd (rnd q * rnd (of_int (int n')))"
    by (rule rounding_mono [OF r])
  show ?thesis
    unfolding float_mul_def float_of_int_def float_lit_def using 3 order_refl by (rule min.mono)
qed

lemma calculate_confidence_formula:
  "calculate_confidence rnd syms message =
   confidence_formula rnd (length syms) (length (str_split message))"
  unfolding calculate_confidence_def confidence_formula_def float_mul_def Let_def
  by (simp only: mult.commute)

lemma rounded_sum_lower:
  assumes r: "rounding rnd" and a: "0 \<le> a" and b: "0 \<le> b"
  shows "rnd c \<le> rnd (rnd (rnd c + a) + b)"
proof -
  have "rnd c \<le> rnd c + a" using a by simp
  then have "rnd (rnd c) \<le> rnd (rnd c + a)" by (rule rounding_mono [OF r])
  then have 1: "rnd c \<le> rnd (rnd c + a)" by (simp only: rounding_idem [OF r])
  have "rnd c \<le> rnd (rnd c + a) + b" using 1 b by linarith
  then have "rnd (rnd c) \<le> rnd (rnd (rnd c + a) + b)" by (rule rounding_mono [OF r])
  then show ?thesis by (simp only: rounding_idem [OF r])
qed

lemma rounded_sum_mono:
  assumes r: "rounding rnd" and a: "a \<le> a'" and b: "b \<le> b'"
  shows "rnd (rnd (c + a) + b) \<le> rnd (rnd (c + a') + b')"
proof -
  have "c + a \<le> c + a'" using a by simp
  then have "rnd (c + a) \<le> rnd (c + a')" by (rule rounding_mono [OF r])
  then have "rnd (c + a) + b \<le> rnd (c + a') + b'" using b by linarith
  then show ?thesis by (rule rounding_mono [OF r])
qed

lemma confidence_formula_lower:
  assumes r: "rounding rnd"
  shows "float_lit rnd (6 / 10) \<le> confidence_formula rnd n w"
proof -
  define a where "a = min (float_mul rnd (float_lit rnd (1 / 10)) (float_of_int rnd (int n)))
                          (float_lit rnd (3 / 10))"
  define b where "b = min (float_mul rnd (float_lit rnd (1 / 100)) (float_of_int rnd (int w)))
                          (float_lit rnd (1 / 10))"
  have a: "0 \<le> a"
    unfolding a_def by (rule bonus_nonneg [OF r]) simp_all
  have b: "0 \<le> b"
    unfolding b_def by (rule bonus_nonneg [OF r]) simp_all
  have 1: "rnd (6 / 10) \<le> rnd (rnd (rnd (6 / 10) + a) + b)"
    by (rule rounded_sum_lower [OF r a b])
  have 2: "rnd (6 / 10) \<le> rnd (95 / 100)" by (rule rounding_mono [OF r]) simp
  have "confidence_formula rnd n w = min (rnd (rnd (rnd (6 / 10) + a) + b)) (rnd (95 / 100))"
    unfolding confidence_formula_def a_def b_def float_add_def float_lit_def ..
  then show ?thesis using 1 2 by (simp only: float_lit_def min.bounded_iff)
qed

lemma confidence_formula_upper: "confidence_formula rnd n w \<le> float_lit rnd (95 / 100)"
  unfolding confidence_formula_def by (rule min.cobounded2)

lemma confidence_formula_mono:
  assumes r: "rounding rnd" and n: "n \<le> n'" and w: "w \<le> w'"
  shows "confidence_formula rnd n w \<le> confidence_formula rnd n' w'"
proof -
  define a where "a = (\<lambda>n. min (float_mul rnd (float_lit rnd (1 / 10)) (float_of_int rnd (int n)))
                          (float_lit rnd (3 / 10)))"
  define b where "b = (\<lambda>w. min (float_mul rnd (float_lit rnd (1 / 100)) (float_of_int rnd (int w)))
                          (float_lit rnd (1 / 10)))"
  have a: "a n \<le> a n'"
    unfolding a_def by (rule bonus_mono [OF r _ n]) simp
  have b: "b w \<le> b w'"
    unfolding b_def by (rule bonus_mono [OF r _ w]) simp
  have 1: "rnd (rnd (rnd (6 / 10) + a n) + b w) \<le> rnd (rnd (rnd (6 / 10) + a n') + b w')"
    by (rule rounded_sum_mono [OF r a b])
  have eq: "\<And>n w. confidence_formula rnd n w =
              min (rnd (rnd (rnd (6 / 10) + a n) + b w)) (rnd (95 / 100))"
    unfolding confidence_formula_def a_def b_def float_add_def float_lit_def ..
  show ?thesis unfolding eq using 1 by (rule min.mono) simp
qed

lemma confidence_formula_zero:
  assumes r: "rounding rnd"
  shows "confidence_formula rnd 0 0 = float_lit rnd (6 / 10)"
proof -
  have 3: "0 \<le> rnd (3 / 10)" by (rule rounding_nonneg [OF r]) simp
  have 5: "0 \<le> rnd (1 / 10)" by (rule rounding_nonneg [OF r]) simp
  have 4: "rnd (6 / 10) \<le> rnd (95 / 100)" by (rule rounding_mono [OF r]) simp
  have z: "\<And>q. float_mul rnd q (float_of_int rnd (int 0)) = 0"
    by (simp add: float_mul_def float_of_int_def rounding_zero [OF r])
  have a: "min (0::real) (rnd (3 / 10)) = 0" using 3 by (rule min.absorb1)
  have b: "min (0::real) (rnd (1 / 10)) = 0" using 5 by (rule min.absorb1)
  have "confidence_formula rnd 0 0 = min (rnd (rnd (rnd (6 / 10) + 0) + 0)) (rnd (95 / 100))"
    unfolding confidence_formula_def float_add_def float_lit_def z a b ..
  also have "\<dots> = min (rnd (6 / 10)) (rnd (95 / 100))"
    by (simp only: add_0_right rounding_idem [OF r])
  also have "\<dots> = rnd (6 / 10)" using 4 by (rule min.absorb1)
  finally show ?thesis unfolding float_lit_def .
qed

subsection \<open>Splitting and trimming\<close>

lemma split_from_spaces: "\<forall>c \<in> set ws. is_space c \<Longrightarrow> split_from [] ws = []"
  by (induction ws) auto

lemma split_from_trailing:
  "\<forall>c \<in> set ws. is_space c \<Longrightarrow> split_from cur (t @ ws) = split_from cur t"
proof (induction t arbitrary: cur)
  case Nil
  then show ?case by (cases ws) (auto simp: split_from_spaces)
next
  case (Cons a t)
  then show ?case by simp
qed

lemma split_from_leading: "split_from [] (dropWhile is_space s) = split_from [] s"
  by (induction s) auto

lemma strip_decomp:
  "\<exists>ws. (\<forall>c \<in> set ws. is_space c) \<and> dropWhile is_space s = str_strip s @ ws"
proof -
  let ?t = "dropWhile is_space s"
  have "rev ?t = takeWhile is_space (rev ?t) @ dropWhile is_space (rev ?t)" by simp
  then have "?t = rev (dropWhile is_space (rev ?t)) @ rev (takeWhile is_space (rev ?t))"
    by (metis rev_append rev_rev_ident)
  moreover have "\<forall>c \<in> set (rev (takeWhile is_space (rev ?t))). is_space c"
    by (auto dest: set_takeWhileD)
  ultimately show ?thesis unfolding str_strip_def by blast
qed

lemma str_split_strip: "str_split (str_strip s) = str_split s"
proof -
  obtain ws where ws: "\<forall>c \<in> set ws. is_space c" "dropWhile is_space s = str_strip s @ ws"
    using strip_decomp by blast
  have "split_from [] s = split_from [] (str_strip s @ ws)"
    using ws(2) split_from_leading [of s] by simp
  then show ?thesis using ws(1) by (simp add: str_split_def split_from_trailing)
qed

subsection \<open>The severity score\<close>

lemma foldl_plus:
  fixes f :: "int \<Rightarrow> 'a \<Rightarrow> int"
  assumes "\<And>s x. f s x = s + g x"
  shows "foldl f s xs = s + sum_list (map g xs)"
  by (induction xs arbitrary: s) (simp_all add: assms)

lemma score_categories:
  "foldl (\<lambda>score (category, data).
            foldl (\<lambda>score (severity, indicators).
                     foldl (\<lambda>score indicator.
                              if sublist indicator message then
                                (if severity = ''mild'' then score + 1
                                 else if severity = ''moderate'' then score + 3
                                 else if severity = ''severe'' then score + 5
                                 else score)
                              else score) score indicators)
                  score (severity_indicators data)) s kb =
   s + sum_list (map (\<lambda>(cat, data).
         sum_list (map (\<lambda>(level, indicators).
           sum_list (map (\<lambda>indicator. if sublist indicator message then level_weight level else 0)
                         indicators))
           (severity_indicators data))) kb)"
proof -
  have inner: "\<And>level s indicators.
    foldl (\<lambda>score indicator.
             if sublist indicator message then
               (if level = ''mild'' then score + 1
                else if level = ''moderate'' then score + 3
                else if level = ''severe'' then score + 5
                else score)
             else score) s indicators =
    s + sum_list (map (\<lambda>indicator. if sublist indicator message then level_weight level else 0)
                      indicators)"
    by (rule foldl_plus) (simp add: level_weight_def)
  have level: "\<And>s levels.
    foldl (\<lambda>score (severity, indicators).
             foldl (\<lambda>score indicator.
                      if sublist indicator message then
                        (if severity = ''mild'' then score + 1
                         else if severity = ''moderate'' then score + 3
                         else if severity = ''severe'' then score + 5
                         else score)
                      else score) score indicators) s levels =
    s + sum_list (map (\<lambda>(level, indicators).
           sum_list (map (\<lambda>indicator. if sublist indicator message then level_weight level else 0)
                         indicators)) levels)"
    by (rule foldl_plus) (simp add: inner split: prod.splits)
  show ?thesis
    by (rule foldl_plus) (simp add: level split: prod.splits)
qed

lemma sum_filter_concat_map:
  fixes h :: "'a \<Rightarrow> int"
  shows "sum_list (map h (filter P (concat (map F xs)))) =
         sum_list (map (\<lambda>x. sum_list (map h (filter P (F x)))) xs)"
  by (induction xs) simp_all

lemma triples_sum:
  "sum_list (map (\<lambda>(cat, level, indicator). level_weight level)
     (filter (\<lambda>(cat, level, indicator). sublist indicator message)
        (concat (map (\<lambda>(cat, data).
           concat (map (\<lambda>(level, indicators). map (\<lambda>indicator. (cat, level, indicator)) indicators)
                       (severity_indicators data))) kb)))) =
   sum_list (map (\<lambda>(cat, data).
         sum_list (map (\<lambda>(level, indicators).
           sum_list (map (\<lambda>indicator. if sublist indicator message then level_weight level else 0)
                         indicators))
           (severity_indicators data))) kb)"
proof -
  have inner: "\<And>cat level indicators.
    sum_list (map (\<lambda>(cat, level, indicator). level_weight level)
      (filter (\<lambda>(cat, level, indicator). sublist indicator message)
         (map (\<lambda>indicator. (cat, level, indicator)) indicators))) =
    sum_list (map (\<lambda>indicator. if sublist indicator message then level_weight level else 0)
                  indicators)"
  proof -
    fix cat level indicators
    show "sum_list (map (\<lambda>(cat, level, indicator). level_weight level)
      (filter (\<lambda>(cat, level, indicator). sublist indicator message)
         (map (\<lambda>indicator. (cat, level, indicator)) indicators))) =
      sum_list (map (\<lambda>indicator. if sublist indicator message then level_weight level else 0)
                  indicators)"
      by (induction indicators) simp_all
  qed
  have level: "\<And>cat levels.
    sum_list (map (\<lambda>(cat, level, indicator). level_weight level)
      (filter (\<lambda>(cat, level, indicator). sublist indicator message)
         (concat (map (\<lambda>(level, indicators). map (\<lambda>indicator. (cat, level, indicator)) indicators)
                      levels)))) =
    sum_list (map (\<lambda>(level, indicators).
           sum_list (map (\<lambda>indicator. if sublist indicator message then level_weight level else 0)
                         indicators)) levels)"
  proof -
    fix cat levels
    show "sum_list (map (\<lambda>(cat, level, indicator). level_weight level)
      (filter (\<lambda>(cat, level, indicator). sublist indicator message)
         (concat (map (\<lambda>(level, indicators). map (\<lambda>indicator. (cat, level, indicator)) indicators)
                      levels)))) =
      sum_list (map (\<lambda>(level, indicators).
           sum_list (map (\<lambda>indicator. if sublist indicator message then level_weight level else 0)
                         indicators)) levels)"
    proof (induction levels)
      case Nil
      show ?case by simp
    next
      case (Cons a levels)
      then show ?case by (cases a) (simp add: inner)
    qed
  qed
  show ?thesis
  proof (induction kb)
    case Nil
    show ?case by simp
  next
    case (Cons a kb)
    then show ?case by (cases a) (simp add: level)
  qed
qed

lemma assess_severity_score:
  "assess_severity txt syms = severity_of_score (indicator_score txt + int (length syms))"
  unfolding assess_severity_def Let_def score_categories indicator_score_def
    indicator_triples_def triples_sum severity_of_score_def
  by simp

subsection \<open>The two passes of the extractor\<close>

lemma foldl_append_filter:
  "foldl (\<lambda>acc x. if P x then acc @ [x] else acc) acc xs = acc @ filter P xs"
  by (induction xs arbitrary: acc) simp_all

lemma foldl_append_concat:
  assumes "\<And>acc x. f acc x = acc @ h x"
  shows "foldl f acc xs = acc @ concat (map h xs)"
  by (induction xs arbitrary: acc) (simp_all add: assms)

lemma foldl_keywords:
  "foldl (\<lambda>symptoms (category, data).
            foldl (\<lambda>symptoms keyword.
                     if sublist keyword message then symptoms @ [keyword] else symptoms)
                  symptoms (cat_keywords data)) acc kb =
   acc @ filter (\<lambda>keyword. sublist keyword message)
           (concat (map (\<lambda>(cat, data). cat_keywords data) kb))"
proof -
  have "foldl (\<lambda>symptoms (category, data).
            foldl (\<lambda>symptoms keyword.
                     if sublist keyword message then symptoms @ [keyword] else symptoms)
                  symptoms (cat_keywords data)) acc kb =
    acc @ concat (map (\<lambda>(cat, data). filter (\<lambda>keyword. sublist keyword message)
                                         (cat_keywords data)) kb)"
    by (rule foldl_append_concat) (simp add: foldl_append_filter split: prod.splits)
  also have "concat (map (\<lambda>(cat, data). filter (\<lambda>keyword. sublist keyword message)
                                         (cat_keywords data)) kb) =
    filter (\<lambda>keyword. sublist keyword message)
           (concat (map (\<lambda>(cat, data). cat_keywords data) kb))"
    by (induction kb) (simp_all split: prod.splits)
  finally show ?thesis .
qed

lemma keyword_pass_hits: "keyword_pass message = keyword_hits message"
  unfolding keyword_pass_def keyword_hits_def all_keywords_def foldl_keywords by simp

lemma keep_new_append:
  "keep_new seen (xs @ ys) = keep_new seen xs @ keep_new (seen @ keep_new seen xs) ys"
  by (induction xs arbitrary: seen) simp_all

lemma foldl_matches:
  "foldl (\<lambda>symptoms match.
            let clean_symptom = str_strip match
            in if length clean_symptom > 2 \<and> clean_symptom \<notin> set symptoms
               then symptoms @ [clean_symptom] else symptoms) acc ms =
   acc @ keep_new acc (map str_strip ms)"
  by (induction ms arbitrary: acc) (simp_all add: Let_def)

lemma foldl_keep_new:
  assumes "\<And>acc x. f acc x = acc @ keep_new acc (g x)"
  shows "foldl f acc xs = acc @ keep_new acc (concat (map g xs))"
  by (induction xs arbitrary: acc) (simp_all add: assms keep_new_append)

lemma foldl_patterns:
  "foldl (\<lambda>symptoms pattern.
            foldl (\<lambda>symptoms match.
                     let clean_symptom = str_strip match
                     in if length clean_symptom > 2 \<and> clean_symptom \<notin> set symptoms
                        then symptoms @ [clean_symptom] else symptoms)
                  symptoms (findall pattern message)) acc ps =
   acc @ keep_new acc (map str_strip (concat (map (\<lambda>p. findall p message) ps)))"
proof -
  have "foldl (\<lambda>symptoms pattern.
            foldl (\<lambda>symptoms match.
                     let clean_symptom = str_strip match
                     in if length clean_symptom > 2 \<and> clean_symptom \<notin> set symptoms
                        then symptoms @ [clean_symptom] else symptoms)
                  symptoms (findall pattern message)) acc ps =
    acc @ keep_new acc (concat (map (\<lambda>p. map str_strip (findall p message)) ps))"
    by (rule foldl_keep_new) (rule foldl_matches)
  also have "concat (map (\<lambda>p. map str_strip (findall p message)) ps) =
    map str_strip (concat (map (\<lambda>p. findall p message) ps))"
    by (simp add: map_concat o_def)
  finally show ?thesis .
qed

lemma pattern_pass_hits:
  "pattern_pass message (keyword_hits message) = keyword_hits message @ pattern_hits message"
  unfolding pattern_pass_def pattern_hits_def captures_def foldl_patterns ..

lemma extract_symptoms_hits:
  "extract_symptoms message = take 10 (keyword_hits message @ pattern_hits message)"
  unfolding extract_symptoms_def keyword_pass_hits pattern_pass_hits ..

lemma keep_new_fresh: "set (keep_new seen cs) \<inter> set seen = {}"
proof (induction cs arbitrary: seen)
  case Nil
  show ?case by simp
next
  case (Cons c cs)
  show ?case using Cons.IH [of seen] Cons.IH [of "seen @ [c]"] by auto
qed

lemma keep_new_distinct: "distinct (keep_new seen cs)"
proof (induction cs arbitrary: seen)
  case Nil
  show ?case by simp
next
  case (Cons c cs)
  show ?case using Cons.IH [of seen] Cons.IH [of "seen @ [c]"] keep_new_fresh [of "seen @ [c]" cs]
    by auto
qed

lemma distinct_all_keywords: "distinct all_keywords"
  by code_simp

lemma keyword_hits_distinct: "distinct (keyword_hits message)"
  unfolding keyword_hits_def using distinct_all_keywords by (rule distinct_filter)

lemma hits_distinct: "distinct (keyword_hits message @ pattern_hits message)"
  using keyword_hits_distinct [of message]
    keep_new_distinct [of "keyword_hits message" "map str_strip (captures message)"]
    keep_new_fresh [of "keyword_hits message" "map str_strip (captures message)"]
  unfolding pattern_hits_def by auto

subsection \<open>Lowercasing and trimming\<close>



lemma suffix_trans: "suffix xs ys \<Longrightarrow> suffix ys zs \<Longrightarrow> suffix xs zs"
  unfolding suffix_def by (metis append.assoc)





subsection \<open>What the patterns capture\<close>

lemma ci_literal_suffix: "ci_literal p s = Some r \<Longrightarrow> suffix r s"
proof (induction p s rule: ci_literal.induct)
  case (1 s)
  then show ?case by simp
next
  case (2 p ps)
  then show ?case by simp
next
  case (3 p ps c cs)
  then show ?case by (auto simp: suffix_Cons split: if_splits)
qed

lemma ci_literal_length: "ci_literal p s = Some r \<Longrightarrow> length s = length p + length r"
  by (induction p s rule: ci_literal.induct) (auto split: if_splits)

lemma match_tail_suffix: "match_tail t s = Some r \<Longrightarrow> suffix r s"
proof (cases t)
  case ClauseEnd
  assume "match_tail t s = Some r"
  then show ?thesis unfolding ClauseEnd
    by (auto split: option.splits if_splits dest: ci_literal_suffix)
next
  case Hurts
  assume "match_tail t s = Some r"
  then show ?thesis unfolding Hurts
    by (auto split: option.splits dest: ci_literal_suffix suffix_trans)
next
  case Bothering
  assume "match_tail t s = Some r"
  then show ?thesis unfolding Bothering by (auto dest: ci_literal_suffix)
qed






subsection \<open>A match is never empty\<close>

lemma lazy_group_tail:
  "lazy_group t acc s = Some (g, r) \<Longrightarrow> \<exists>x. suffix x s \<and> match_tail t x = Some r"
proof (induction t acc s rule: lazy_group.induct)
  case (1 t acc)
  then show ?case by (auto split: option.splits)
next
  case (2 t acc c cs)
  show ?case
  proof (cases "match_tail t (c # cs)")
    case (Some r')
    with 2 have "r = r'" by auto
    then show ?thesis using Some by auto
  next
    case None
    with 2 have 3: "c \<noteq> CHR 0x0A" "lazy_group t (c # acc) cs = Some (g, r)"
      by (auto split: if_splits)
    from 2(1) [OF None 3(1) 3(2)] obtain x where "suffix x cs" "match_tail t x = Some r"
      by blast
    then show ?thesis by (auto simp: suffix_Cons)
  qed
qed

lemma match_at_shorter:
  assumes p: "p \<in> set symptom_patterns" and m: "match_at p s = Some (g, r)"
  shows "length r < length s"
proof -
  from m obtain r0 where 1: "ci_literal (lit p) s = Some r0"
    and 2: "lazy_group (tl_of p) [] r0 = Some (g, r)"
    by (auto simp: match_at_def split: option.splits)
  from lazy_group_tail [OF 2] obtain x where x: "suffix x r0" "match_tail (tl_of p) x = Some r"
    by blast
  have l0: "length s = length (lit p) + length r0" using 1 by (rule ci_literal_length)
  have lx: "length x \<le> length r0" using x(1) by (rule suffix_length_le)
  have lr: "length r \<le> length x" using match_tail_suffix [OF x(2)] by (rule suffix_length_le)
  show ?thesis
  proof (cases "tl_of p = Bothering")
    case True
    with x(2) have "ci_literal '' is bothering me'' x = Some r" by simp
    from ci_literal_length [OF this] have "length r < length x" by simp
    then show ?thesis using lx l0 by linarith
  next
    case False
    with p have "lit p \<noteq> []" by (auto simp: symptom_patterns_def)
    then have "0 < length (lit p)" by simp
    then show ?thesis using l0 lx lr by linarith
  qed
qed

subsection \<open>Extracted symptoms are parts of the text\<close>


subsection \<open>Conditions\<close>










subsection \<open>The two paths of the analysis\<close>

lemma analyze_message_normal:
  assumes "\<not> is_emergency_msg (str_strip (str_lower message))"
  shows "symptoms (analyze_message rnd message) = extract_symptoms (str_strip (str_lower message))"
    and "severity (analyze_message rnd message) =
           assess_severity (str_strip (str_lower message))
             (extract_symptoms (str_strip (str_lower message)))"
    and "urgency (analyze_message rnd message) =
           assess_urgency (severity (analyze_message rnd message))
             (extract_symptoms (str_strip (str_lower message)))"
    and "recommendations (analyze_message rnd message) =
           generate_recommendations (extract_symptoms (str_strip (str_lower message)))
             (severity (analyze_message rnd message))"
    and "potential_conditions (analyze_message rnd message) =
           identify_conditions (extract_symptoms (str_strip (str_lower message)))"
    and "confidence (analyze_message rnd message) =
           calculate_confidence rnd (extract_symptoms (str_strip (str_lower message)))
             (str_strip (str_lower message))"
  using assms by (simp_all add: analyze_message_def Let_def)

lemma analyze_message_emergency:
  assumes "is_emergency_msg (str_strip (str_lower message))"
  shows "analyze_message rnd message = create_emergency_response rnd (str_strip (str_lower message))"
  using assms by (simp add: analyze_message_def Let_def)

lemma general_no_triage: "\<not> runs_triage (snd (handle_general_question ai message user_name))"
  by (simp add: handle_general_question_def runs_triage_def is_health_analysis_def Let_def
      split: sum.splits)

section \<open>The emergency path\<close>

text \<open>
  C1. The specification asks that \<^verbatim>\<open>urgency == 'emergency'\<close> holds exactly when
  \<^verbatim>\<open>is_emergency\<close> is true, exactly when the lowercased message contains an emergency
  phrase. The code does not do this: for the message \<^verbatim>\<open>chest pain\<close>, which contains the
  emergency phrase \<^verbatim>\<open>chest pain\<close>, the analysis has the urgency \<^verbatim>\<open>emergency\<close> and its
  field \<^verbatim>\<open>is_emergency\<close> is false. \<^verbatim>\<open>_create_emergency_response\<close> builds the analysis
  without that field, which keeps the default \<^verbatim>\<open>False\<close> of the dataclass.
\<close>

theorem emergency_flag_not_set:
  "is_emergency_msg (str_strip (str_lower ''chest pain'')) \<and>
   urgency (analyze_message rnd ''chest pain'') = ''emergency'' \<and>
   \<not> is_emergency (analyze_message rnd ''chest pain'')"
proof -
  have 1: "is_emergency_msg (str_strip (str_lower ''chest pain''))" by code_simp
  show ?thesis
    unfolding analyze_message_emergency [OF 1] using 1
    by (simp add: create_emergency_response_def)
qed

section \<open>Severity and urgency\<close>

text \<open>
  C2. For every message that does not take the emergency path, the severity is the
  threshold mapping (at least 8: severe; from 4 to 7: moderate; below 4: mild) of a
  score: the sum, over all indicator phrases of all categories and levels that occur
  in the normalised text, of the weight of the level (mild 1, moderate 3, severe 5),
  plus the number of extracted symptoms. The urgency is \<^verbatim>\<open>high\<close>, \<^verbatim>\<open>medium\<close> or \<^verbatim>\<open>low\<close> as
  the severity is \<^verbatim>\<open>severe\<close>, \<^verbatim>\<open>moderate\<close> or \<^verbatim>\<open>mild\<close>. The same holds of the two
  functions on any text and any symptom list, and the urgency does not depend on the
  symptoms.
\<close>

theorem severity_is_threshold_of_score:
  assumes n: "\<not> is_emergency_msg (str_strip (str_lower message))"
  shows "severity (analyze_message rnd message) =
           severity_of_score (indicator_score (str_strip (str_lower message)) +
                              int (length (symptoms (analyze_message rnd message)))) \<and>
         (severity (analyze_message rnd message) = ''severe'' \<and>
            urgency (analyze_message rnd message) = ''high'' \<or>
          severity (analyze_message rnd message) = ''moderate'' \<and>
            urgency (analyze_message rnd message) = ''medium'' \<or>
          severity (analyze_message rnd message) = ''mild'' \<and>
            urgency (analyze_message rnd message) = ''low'') \<and>
         (\<forall>txt syms. assess_severity txt syms =
            severity_of_score (indicator_score txt + int (length syms))) \<and>
         (\<forall>syms. assess_urgency ''severe'' syms = ''high'' \<and>
                 assess_urgency ''moderate'' syms = ''medium'' \<and>
                 assess_urgency ''mild'' syms = ''low'') \<and>
         (\<forall>sev syms syms'. assess_urgency sev syms = assess_urgency sev syms')"
proof -
  let ?sev = "severity (analyze_message rnd message)"
  let ?urg = "urgency (analyze_message rnd message)"
  have sev: "?sev = severity_of_score (indicator_score (str_strip (str_lower message)) +
                              int (length (symptoms (analyze_message rnd message))))"
    unfolding analyze_message_normal(1,2) [OF n] by (rule assess_severity_score)
  have three: "\<And>score. severity_of_score score = ''severe'' \<or>
      severity_of_score score = ''moderate'' \<or> severity_of_score score = ''mild''"
    by (simp add: severity_of_score_def)
  have urg: "\<And>syms. assess_urgency ''severe'' syms = ''high'' \<and>
                 assess_urgency ''moderate'' syms = ''medium'' \<and>
                 assess_urgency ''mild'' syms = ''low''"
    by (simp add: assess_urgency_def)
  have u: "?urg = assess_urgency ?sev (extract_symptoms (str_strip (str_lower message)))"
    by (rule analyze_message_normal(3) [OF n])
  have cases: "?sev = ''severe'' \<and> ?urg = ''high'' \<or>
               ?sev = ''moderate'' \<and> ?urg = ''medium'' \<or>
               ?sev = ''mild'' \<and> ?urg = ''low''"
    using three [of "indicator_score (str_strip (str_lower message)) +
                     int (length (symptoms (analyze_message rnd message)))"]
      urg [of "extract_symptoms (str_strip (str_lower message))"]
    unfolding sev [symmetric] u by metis
  have indep: "\<forall>sev syms syms'. assess_urgency sev syms = assess_urgency sev syms'"
    by (simp add: assess_urgency_def)
  show ?thesis using sev cases assess_severity_score urg indep by blast
qed

theorem severity_is_threshold_of_score_witness:
  "\<not> is_emergency_msg (str_strip (str_lower ''I have a severe headache and fever'')) \<and>
   indicator_score (str_strip (str_lower ''I have a severe headache and fever'')) = 16 \<and>
   length (symptoms (analyze_message (\<lambda>x. x) ''I have a severe headache and fever'')) = 4 \<and>
   severity (analyze_message (\<lambda>x. x) ''I have a severe headache and fever'') = ''severe'' \<and>
   urgency (analyze_message (\<lambda>x. x) ''I have a severe headache and fever'') = ''high''"
proof -
  let ?a = "analyze_message (\<lambda>x. x) ''I have a severe headache and fever''"
  have 1: "\<not> is_emergency_msg (str_strip (str_lower ''I have a severe headache and fever''))"
    by code_simp
  have 2: "indicator_score (str_strip (str_lower ''I have a severe headache and fever'')) = 16"
    by code_simp
  have 3: "extract_symptoms (str_strip (str_lower ''I have a severe headache and fever'')) =
     [''ache'', ''fever'', ''headache'', ''a severe headache and fever'']"
    by code_simp
  have 4: "length (symptoms ?a) = 4"
    unfolding analyze_message_normal(1) [OF 1] 3 by simp
  note t = severity_is_threshold_of_score [OF 1, of "\<lambda>x. x"]
  from t have "severity ?a = severity_of_score (16 + int 4)" unfolding 2 4 by blast
  then have 5: "severity ?a = ''severe''" by (simp add: severity_of_score_def)
  from t have "severity ?a = ''severe'' \<and> urgency ?a = ''high'' \<or>
               severity ?a = ''moderate'' \<and> urgency ?a = ''medium'' \<or>
               severity ?a = ''mild'' \<and> urgency ?a = ''low''"
    by blast
  then have 6: "urgency ?a = ''high''" unfolding 5 by simp
  show ?thesis using 1 2 4 5 6 by blast
qed

section \<open>Conditions\<close>

text \<open>
  C3. The specification asks that a condition is reported only if at least two of its
  defining phrases occur in the extracted symptoms, and that \<^verbatim>\<open>Flu\<close> is not reported for
  \<^verbatim>\<open>I have a severe headache and fever\<close>. The code reports it: the extracted symptoms are
  \<^verbatim>\<open>ache\<close>, \<^verbatim>\<open>fever\<close>, \<^verbatim>\<open>headache\<close> and the capture \<^verbatim>\<open>a severe headache and fever\<close>; of the
  four defining phrases of the flu only \<^verbatim>\<open>fever\<close> occurs in any of them, but it occurs
  in two of them, the counter of \<^verbatim>\<open>_identify_conditions\<close> is increased once for each,
  and \<^verbatim>\<open>potential_conditions\<close> is \<^verbatim>\<open>['Flu']\<close>.
\<close>

theorem flu_reported_for_one_phrase:
  "symptoms (analyze_message rnd ''I have a severe headache and fever'') =
     [''ache'', ''fever'', ''headache'', ''a severe headache and fever''] \<and>
   filter (\<lambda>phrase. list_ex (\<lambda>symptom. sublist (str_lower phrase) (str_lower symptom))
                        [''ache'', ''fever'', ''headache'', ''a severe headache and fever''])
          [''fever'', ''body aches'', ''fatigue'', ''cough''] = [''fever''] \<and>
   potential_conditions (analyze_message rnd ''I have a severe headache and fever'') = [''Flu'']"
proof -
  have 1: "\<not> is_emergency_msg (str_strip (str_lower ''I have a severe headache and fever''))"
    by code_simp
  have 2: "extract_symptoms (str_strip (str_lower ''I have a severe headache and fever'')) =
     [''ache'', ''fever'', ''headache'', ''a severe headache and fever'']"
    by code_simp
  have 3: "identify_conditions [''ache'', ''fever'', ''headache'', ''a severe headache and fever'']
     = [''Flu'']"
    by code_simp
  have 4: "filter (\<lambda>phrase. list_ex (\<lambda>symptom. sublist (str_lower phrase) (str_lower symptom))
                        [''ache'', ''fever'', ''headache'', ''a severe headache and fever''])
          [''fever'', ''body aches'', ''fatigue'', ''cough''] = [''fever'']"
    by code_simp
  show ?thesis
    unfolding analyze_message_normal(1) [OF 1] analyze_message_normal(5) [OF 1] 2 3
    using 4 by simp
qed




section \<open>Confidence\<close>

text \<open>
  C5. For every message that does not take the emergency path, the confidence of the
  analysis is \<^verbatim>\<open>min(0.6 + min(0.1 * symptom_count, 0.3) + min(0.01 * word_count, 0.1), 0.95)\<close>
  in floating-point arithmetic, where \<^verbatim>\<open>symptom_count\<close> is the number of extracted
  symptoms and \<^verbatim>\<open>word_count\<close> the number of whitespace-separated tokens of the lowercased
  message; it lies between the floats 0.6 and 0.95; and the formula is non-strictly
  increasing in both counts.
\<close>

theorem confidence_is_formula:
  assumes r: "rounding rnd"
    and n: "\<not> is_emergency_msg (str_strip (str_lower message))"
  shows "confidence (analyze_message rnd message) =
           confidence_formula rnd (length (symptoms (analyze_message rnd message)))
             (length (str_split (str_lower message))) \<and>
         float_lit rnd (6 / 10) \<le> confidence (analyze_message rnd message) \<and>
         confidence (analyze_message rnd message) \<le> float_lit rnd (95 / 100) \<and>
         (\<forall>n n' w w'. n \<le> n' \<longrightarrow> w \<le> w' \<longrightarrow>
            confidence_formula rnd n w \<le> confidence_formula rnd n' w')"
proof -
  have eq: "confidence (analyze_message rnd message) =
           confidence_formula rnd (length (symptoms (analyze_message rnd message)))
             (length (str_split (str_lower message)))"
    unfolding analyze_message_normal(1,6) [OF n] calculate_confidence_formula str_split_strip ..
  have lo: "float_lit rnd (6 / 10) \<le> confidence (analyze_message rnd message)"
    unfolding eq by (rule confidence_formula_lower [OF r])
  have hi: "confidence (analyze_message rnd message) \<le> float_lit rnd (95 / 100)"
    unfolding eq by (rule confidence_formula_upper)
  have mono: "\<forall>n n' w w'. n \<le> n' \<longrightarrow> w \<le> w' \<longrightarrow>
            confidence_formula rnd n w \<le> confidence_formula rnd n' w'"
    using confidence_formula_mono [OF r] by blast
  show ?thesis using eq lo hi mono by blast
qed

theorem confidence_is_formula_witness:
  "rounding (\<lambda>x::real. x) \<and>
   \<not> is_emergency_msg (str_strip (str_lower ''I have a severe headache and fever'')) \<and>
   length (symptoms (analyze_message (\<lambda>x. x) ''I have a severe headache and fever'')) = 4 \<and>
   length (str_split (str_lower ''I have a severe headache and fever'')) = 7 \<and>
   confidence (analyze_message (\<lambda>x. x) ''I have a severe headache and fever'') = 95 / 100"
proof -
  have 1: "rounding (\<lambda>x::real. x)" by (rule rounding_id)
  have 2: "\<not> is_emergency_msg (str_strip (str_lower ''I have a severe headache and fever''))"
    by code_simp
  have 3: "extract_symptoms (str_strip (str_lower ''I have a severe headache and fever'')) =
     [''ache'', ''fever'', ''headache'', ''a severe headache and fever'']"
    by code_simp
  have 4: "length (str_split (str_lower ''I have a severe headache and fever'')) = 7"
    by code_simp
  have 5: "length (symptoms (analyze_message (\<lambda>x. x) ''I have a severe headache and fever'')) = 4"
    unfolding analyze_message_normal(1) [OF 2] 3 by simp
  have 6: "confidence_formula (\<lambda>x. x) 4 7 = 95 / 100"
    by (simp add: confidence_formula_def float_add_def float_mul_def float_lit_def float_of_int_def)
  from confidence_is_formula [OF 1 2]
  have "confidence (analyze_message (\<lambda>x. x) ''I have a severe headache and fever'') =
     confidence_formula (\<lambda>x. x) 4 7"
    unfolding 4 5 by blast
  then show ?thesis using 1 2 4 5 6 by simp
qed

section \<open>The extracted symptoms\<close>

text \<open>
  C6. For every text, the list of extracted symptoms has at most 10 entries, has no
  duplicates, and is the first 10 entries of the discovery order: the keywords that
  occur in the text, in category-then-keyword order, followed by the trimmed captures
  of the patterns that are longer than 2 characters and not already present. The
  symptoms of every analysis, on either path, have at most 10 entries and no
  duplicates.
\<close>

theorem extracted_symptoms_invariants:
  "length (extract_symptoms txt) \<le> 10 \<and>
   distinct (extract_symptoms txt) \<and>
   extract_symptoms txt = take 10 (keyword_hits txt @ pattern_hits txt) \<and>
   length (symptoms (analyze_message rnd message)) \<le> 10 \<and>
   distinct (symptoms (analyze_message rnd message))"
proof -
  have 1: "\<And>txt. length (take 10 (keyword_hits txt @ pattern_hits txt)) \<le> 10"
    by (simp only: length_take min.cobounded2)
  have 2: "\<And>txt. distinct (take 10 (keyword_hits txt @ pattern_hits txt))"
    using hits_distinct by (rule distinct_take)
  have 3: "length (symptoms (analyze_message rnd message)) \<le> 10 \<and>
           distinct (symptoms (analyze_message rnd message))"
  proof (cases "is_emergency_msg (str_strip (str_lower message))")
    case True
    show ?thesis
      unfolding analyze_message_emergency [OF True] by (simp add: create_emergency_response_def)
  next
    case False
    show ?thesis
      unfolding analyze_message_normal(1) [OF False] extract_symptoms_hits using 1 2 by blast
  qed
  show ?thesis unfolding extract_symptoms_hits using 1 2 3 by blast
qed

theorem extracted_symptoms_invariants_witness:
  "keyword_hits ''i have a severe headache and fever'' = [''ache'', ''fever'', ''headache''] \<and>
   pattern_hits ''i have a severe headache and fever'' = [''a severe headache and fever''] \<and>
   extract_symptoms ''i have a severe headache and fever'' =
     [''ache'', ''fever'', ''headache'', ''a severe headache and fever''] \<and>
   distinct (extract_symptoms ''i have a severe headache and fever'')"
proof -
  have 1: "keyword_hits ''i have a severe headache and fever'' = [''ache'', ''fever'', ''headache'']"
    by code_simp
  have 2: "pattern_hits ''i have a severe headache and fever'' = [''a severe headache and fever'']"
    by code_simp
  note t = extracted_symptoms_invariants [of "''i have a severe headache and fever''" "\<lambda>x. x" "[]"]
  from t have 3: "extract_symptoms ''i have a severe headache and fever'' =
     [''ache'', ''fever'', ''headache'', ''a severe headache and fever'']"
    unfolding 1 2 by simp
  from t have 4: "distinct (extract_symptoms ''i have a severe headache and fever'')" by blast
  show ?thesis using 1 2 3 4 by blast
qed

section \<open>The empty message\<close>

text \<open>
  C7. For the empty string, \<^verbatim>\<open>analyze_message\<close> returns an analysis (the model of the
  function has no branch that raises) with no symptoms, the severity \<^verbatim>\<open>mild\<close>, the
  urgency \<^verbatim>\<open>low\<close> and the confidence 0.6, the float of the literal.
\<close>

theorem empty_message_analysis:
  assumes r: "rounding rnd"
  shows "symptoms (analyze_message rnd '''') = [] \<and>
         severity (analyze_message rnd '''') = ''mild'' \<and>
         urgency (analyze_message rnd '''') = ''low'' \<and>
         confidence (analyze_message rnd '''') = float_lit rnd (6 / 10)"
proof -
  have 0: "str_strip (str_lower '''') = ''''" by (simp add: str_strip_def str_lower_def)
  have 1: "\<not> is_emergency_msg (str_strip (str_lower ''''))" unfolding 0 by code_simp
  have 2: "extract_symptoms '''' = []" by code_simp
  have 3: "assess_severity '''' [] = ''mild''" by code_simp
  have 4: "assess_urgency ''mild'' [] = ''low''" by (simp add: assess_urgency_def)
  have 5: "calculate_confidence rnd [] '''' = float_lit rnd (6 / 10)"
    unfolding calculate_confidence_formula using confidence_formula_zero [OF r]
    by (simp add: str_split_def)
  show ?thesis
    unfolding analyze_message_normal(3) [OF 1]
    unfolding analyze_message_normal(1,2,6) [OF 1] 0 2 3 4 5 by simp
qed

theorem empty_message_analysis_witness:
  "rounding (\<lambda>x::real. x) \<and>
   symptoms (analyze_message (\<lambda>x. x) '''') = [] \<and>
   severity (analyze_message (\<lambda>x. x) '''') = ''mild'' \<and>
   urgency (analyze_message (\<lambda>x. x) '''') = ''low'' \<and>
   confidence (analyze_message (\<lambda>x. x) '''') = 6 / 10"
  using empty_message_analysis [of "\<lambda>x. x"] by (simp add: rounding_def mono_def float_lit_def)

section \<open>The general-question handler\<close>

text \<open>
  C8. For every message and display name, if the general-question delegate is
  unavailable, or its call or the reading of its answer raises an exception, the
  general-question handler returns the fixed fallback text: it returns a value, no
  exception reaches its caller.
\<close>

theorem general_question_fallback:
  "delegate_fails ai message \<Longrightarrow>
   fst (handle_general_question ai message user_name) =
     Inr (get_fallback_general_response user_name)"
  by (simp add: delegate_fails_def handle_general_question_def Let_def
      split: if_splits sum.splits)

theorem general_question_fallback_witness:
  "delegate_fails
     \<lparr>gemini_available = True,
      generate_content = (\<lambda>prompt. Inl (Exception (ustr ''timeout''))),
      format_response = (\<lambda>analysis user_name. Inr [])\<rparr> ''tell me a joke'' \<and>
   fst (handle_general_question
     \<lparr>gemini_available = True,
      generate_content = (\<lambda>prompt. Inl (Exception (ustr ''timeout''))),
      format_response = (\<lambda>analysis user_name. Inr [])\<rparr> ''tell me a joke'' (ustr ''Ann'')) =
     Inr (get_fallback_general_response (ustr ''Ann''))"
  using general_question_fallback [of "\<lparr>gemini_available = True,
      generate_content = (\<lambda>prompt. Inl (Exception (ustr ''timeout''))),
      format_response = (\<lambda>analysis user_name. Inr [])\<rparr>" "''tell me a joke''" "ustr ''Ann''"]
  by (simp add: delegate_fails_def)

section \<open>Routing\<close>

text \<open>
  C9. There are messages that contain an emergency phrase of the triage core and that
  the health-relatedness classifier rejects: \<^verbatim>\<open>seizure\<close> and \<^verbatim>\<open>unconscious\<close> are two.
  \<^verbatim>\<open>EnhancedAI.analyze_message\<close> answers them with the general-question handler, and the
  triage core (its emergency detector and its pipeline) does not run.
\<close>

theorem emergency_phrase_routed_to_general_path:
  "is_emergency_msg (str_strip (str_lower ''seizure'')) \<and>
   \<not> is_health_related ''seizure'' \<and>
   enhanced_analyze_message rnd ai ''seizure'' user_name =
     handle_general_question ai ''seizure'' user_name \<and>
   \<not> runs_triage (snd (enhanced_analyze_message rnd ai ''seizure'' user_name)) \<and>
   is_emergency_msg (str_strip (str_lower ''unconscious'')) \<and>
   \<not> is_health_related ''unconscious'' \<and>
   enhanced_analyze_message rnd ai ''unconscious'' user_name =
     handle_general_question ai ''unconscious'' user_name \<and>
   \<not> runs_triage (snd (enhanced_analyze_message rnd ai ''unconscious'' user_name))"
proof -
  have 1: "is_emergency_msg (str_strip (str_lower ''seizure''))" by code_simp
  have 2: "\<not> is_health_related ''seizure''" by code_simp
  have 3: "is_emergency_msg (str_strip (str_lower ''unconscious''))" by code_simp
  have 4: "\<not> is_health_related ''unconscious''" by code_simp
  show ?thesis
    using 1 2 3 4 by (simp add: enhanced_analyze_message_def general_no_triage)
qed

text \<open>
  C10. For every message whose lowercased, trimmed text contains \<^verbatim>\<open>hi\<close>, \<^verbatim>\<open>hello\<close>,
  \<^verbatim>\<open>hey\<close> or \<^verbatim>\<open>start\<close> (also inside a longer word), the message handler of the bot
  returns the welcome message and calls no collaborator: no analysis runs and nothing
  is stored. The checks of the handler run in a fixed order: the greeting check first,
  then the help check, then the tips check, and only then the handler's own
  emergency-keyword check; a message that passes none of them is the only one that
  reaches the analysis. So a message with a greeting word or a help word is answered
  with the welcome or the help message even if it also contains an emergency keyword
  of the handler or an emergency phrase of the triage core.
\<close>

theorem greeting_short_circuits:
  "(is_greeting message \<longrightarrow>
      handle_message rnd self phone_number message = (get_welcome_message, [])) \<and>
   (\<not> is_greeting message \<and> is_help_request message \<longrightarrow>
      handle_message rnd self phone_number message = (get_help_message, [])) \<and>
   (\<not> is_greeting message \<and> \<not> is_help_request message \<and> is_tips_request message \<longrightarrow>
      handle_message rnd self phone_number message = (bot_get_health_tips, [])) \<and>
   (\<not> is_greeting message \<and> \<not> is_help_request message \<and> \<not> is_tips_request message \<and>
    is_emergency_request message \<longrightarrow>
      handle_message rnd self phone_number message = (get_emergency_message, [])) \<and>
   (\<not> is_greeting message \<and> \<not> is_help_request message \<and> \<not> is_tips_request message \<and>
    \<not> is_emergency_request message \<longrightarrow>
      handle_message rnd self phone_number message =
        bot_analyze_message rnd self phone_number message)"
  by (simp add: is_greeting_def is_help_request_def is_tips_request_def
      is_emergency_request_def handle_message_def Let_def)

theorem greeting_short_circuits_witness:
  "is_greeting ''This chest pain'' \<and>
   is_emergency_msg (str_strip (str_lower ''This chest pain'')) \<and>
   handle_message (\<lambda>x. x)
     \<lparr>enhanced_ai = \<lparr>gemini_available = False,
                      generate_content = (\<lambda>prompt. Inl (Exception [])),
                      format_response = (\<lambda>analysis user_name. Inr [])\<rparr>,
      db = \<lparr>get_user_info = (\<lambda>phone_number. Inr None),
             store_message = (\<lambda>phone_number body kind. Inr ())\<rparr>\<rparr>
     (ustr ''+15550100'') ''This chest pain'' = (get_welcome_message, []) \<and>
   \<not> is_greeting ''HELP! Emergency'' \<and>
   is_help_request ''HELP! Emergency'' \<and>
   is_emergency_request ''HELP! Emergency'' \<and>
   handle_message (\<lambda>x. x)
     \<lparr>enhanced_ai = \<lparr>gemini_available = False,
                      generate_content = (\<lambda>prompt. Inl (Exception [])),
                      format_response = (\<lambda>analysis user_name. Inr [])\<rparr>,
      db = \<lparr>get_user_info = (\<lambda>phone_number. Inr None),
             store_message = (\<lambda>phone_number body kind. Inr ())\<rparr>\<rparr>
     (ustr ''+15550100'') ''HELP! Emergency'' = (get_help_message, []) \<and>
   get_help_message \<noteq> get_emergency_message \<and>
   get_welcome_message \<noteq> get_emergency_message"
proof -
  let ?bot = "\<lparr>enhanced_ai = \<lparr>gemini_available = False,
                      generate_content = (\<lambda>prompt. Inl (Exception [])),
                      format_response = (\<lambda>analysis user_name. Inr [])\<rparr>,
      db = \<lparr>get_user_info = (\<lambda>phone_number. Inr None),
             store_message = (\<lambda>phone_number body kind. Inr ())\<rparr>\<rparr>"
  have 1: "is_greeting ''This chest pain''" by code_simp
  have 2: "is_emergency_msg (str_strip (str_lower ''This chest pain''))" by code_simp
  have 3: "\<not> is_greeting ''HELP! Emergency''" by code_simp
  have 4: "is_help_request ''HELP! Emergency''" by code_simp
  have 5: "is_emergency_request ''HELP! Emergency''" by code_simp
  have 6: "get_help_message \<noteq> get_emergency_message"
    by (simp add: get_help_message_def get_emergency_message_def)
  have 7: "get_welcome_message \<noteq> get_emergency_message"
    by (simp add: get_welcome_message_def get_emergency_message_def)
  have 8: "handle_message (\<lambda>x. x) ?bot (ustr ''+15550100'') ''This chest pain'' =
             (get_welcome_message, [])"
    using greeting_short_circuits [of "''This chest pain''" "\<lambda>x. x" ?bot "ustr ''+15550100''"] 1
    by blast
  have 9: "handle_message (\<lambda>x. x) ?bot (ustr ''+15550100'') ''HELP! Emergency'' =
             (get_help_message, [])"
    using greeting_short_circuits [of "''HELP! Emergency''" "\<lambda>x. x" ?bot "ustr ''+15550100''"] 3 4
    by blast
  show ?thesis using 1 2 3 4 5 6 7 8 9 by blast
qed

end
